theory Spec2Isabelle
  imports Main
begin

section \<open>Python values shared by \<open>api.py\<close> and \<open>core.py\<close>\<close>

text \<open>
  An f-string is kept as the sequence of its pieces: the literal text, an interpolated
  string (\<open>{name}\<close>, \<open>{filename}\<close>) and the interpolated array of resource names
  (\<open>{available_files}\<close>). The array is printed by numpy: \<open>Array names\<close> when every
  name is printed, \<open>Abridged first last\<close> when the leading and trailing names are
  printed around an ellipsis.
\<close>

datatype fragment =
  Text string | Value string | Array "string list" | Abridged "string list" "string list"

text \<open>
  \<open>str\<close> of a numpy array with the default print options (\<open>threshold=1000\<close>,
  \<open>edgeitems=3\<close>): an array of more than 1000 items is printed as its first three
  and last three items.
\<close>

definition array_str :: "string list \<Rightarrow> fragment" where
  "array_str names =
     (if length names > 1000 then Abridged (take 3 names) (drop (length names - 3) names)
      else Array names)"

text \<open>
  The classes of \<open>ckanapi.errors\<close> that derive from \<open>CKANAPIError\<close>, as the client
  library defines them for itself. \<open>CKANAPIError\<close> is the base class, raised by the
  client "when no other error is suitable" (a response that is not JSON, an error it
  does not recognise). \<open>NotFound\<close> is the signal that the dataset does not exist.
\<close>

datatype ckan_class =
    CKANAPIError | NotAuthorized | ValidationError | NotFound
  | SearchQueryError | SearchError | SearchIndexError

text \<open>
  Exceptions. \<open>CKAN cls msg\<close> is an instance of one of the classes above, \<open>ValueError\<close>
  carries its f-string, \<open>OtherError cls msg\<close> is an exception of any other class
  \<open>cls\<close>, not derived from \<open>CKANAPIError\<close>, that an external collaborator raises (a
  connection error of the transport, an I/O error of the file system).
\<close>

datatype exn =
    CKAN ckan_class string
  | ValueError "fragment list"
  | KeyError string
  | TypeError string
  | AttributeError string
  | IndexError string
  | OtherError string string

text \<open>\<open>except CKANAPIError\<close> catches the base class and the classes derived from it.\<close>

fun isinstance_CKANAPIError :: "exn \<Rightarrow> bool" where
  "isinstance_CKANAPIError (CKAN cls msg) = True"
| "isinstance_CKANAPIError e = False"

fun signals_not_found :: "exn \<Rightarrow> bool" where
  "signals_not_found (CKAN NotFound msg) = True"
| "signals_not_found e = False"

text \<open>
  \<open>str.lower\<close>. A \<open>string\<close> holds the bytes of the UTF-8 form of a Python string.
  On a string of ASCII characters \<open>str.lower\<close> maps \<open>A\<close> to \<open>Z\<close> onto \<open>a\<close> to
  \<open>z\<close> and leaves every other character. A string with other characters is
  lower-cased by the Unicode tables of the Python runtime, which are not part of this
  program: \<open>unicode_lower\<close> stands for them.
\<close>

definition lower_char :: "char \<Rightarrow> char" where
  "lower_char c =
     (let n = (of_char c :: nat) in if 65 \<le> n \<and> n \<le> 90 then char_of (n + 32) else c)"

definition isascii :: "string \<Rightarrow> bool" where
  "isascii s = list_all (\<lambda>c. (of_char c :: nat) < 128) s"

definition lower :: "(string \<Rightarrow> string) \<Rightarrow> string \<Rightarrow> string" where
  "lower unicode_lower s = (if isascii s then map lower_char s else unicode_lower s)"

text \<open>
  What "compared case-insensitively" asks of two strings, written without \<open>lower\<close>:
  the same length, and at each position the same character or the two cases of one
  ASCII letter. \<open>has_upper\<close> tells whether a string holds an upper-case ASCII letter.
\<close>

definition same_letter :: "char \<Rightarrow> char \<Rightarrow> bool" where
  "same_letter c d =
     (let m = (of_char c :: nat); n = (of_char d :: nat)
      in m = n \<or> (65 \<le> m \<and> m \<le> 90 \<and> n = m + 32) \<or> (65 \<le> n \<and> n \<le> 90 \<and> m = n + 32))"

definition equal_ignoring_case :: "string \<Rightarrow> string \<Rightarrow> bool" where
  "equal_ignoring_case s t = list_all2 same_letter s t"

definition has_upper :: "string \<Rightarrow> bool" where
  "has_upper s = list_ex (\<lambda>c. 65 \<le> (of_char c :: nat) \<and> (of_char c :: nat) \<le> 90) s"

section \<open>The catalog's data\<close>

text \<open>
  One entry of a dataset's \<open>resources\<close> list. The keys are present in every entry; the
  values of \<open>format\<close> and \<open>url\<close> may be JSON null (\<open>None\<close>).
\<close>

record resource =
  rname :: string
  format :: "string option"
  url :: "string option"

text \<open>
  The dict that \<open>package_show\<close> returns: the \<open>resources\<close> key (absent in a malformed
  response) and the remaining metadata.
\<close>

record package =
  pkg_resources :: "resource list option"
  pkg_metadata :: "(string \<times> string) list"

text \<open>The dict that \<open>package_search\<close> returns; the \<open>results\<close> key may be absent.\<close>

record search_response =
  sr_results :: "package list option"
  sr_count :: nat

text \<open>
  A value that is either \<open>pd.DataFrame(rows)\<close> or the plain Python list \<open>rows\<close>,
  as chosen by \<open>as_frame\<close>.
\<close>

datatype 'a tabular = DataFrame "'a list" | PyList "'a list"

text \<open>
  \<open>dataset['name'].values\<close>. A frame built from an empty list of dicts has no columns,
  so the subscript raises \<open>KeyError\<close>; a plain list cannot be subscripted by a string.
\<close>

fun name_values :: "resource tabular \<Rightarrow> exn + string list" where
  "name_values (DataFrame []) = Inl (KeyError ''name'')"
| "name_values (DataFrame rows) = Inr (map rname rows)"
| "name_values (PyList rows) = Inl (TypeError ''list indices must be integers or slices, not str'')"

text \<open>
  \<open>dataset[dataset['name'] == filename].iloc[0]\<close>: the first row with that name, in
  the frame's order; \<open>IndexError\<close> when no row is selected.
\<close>

fun select_first :: "resource tabular \<Rightarrow> string \<Rightarrow> exn + resource" where
  "select_first (DataFrame []) filename = Inl (KeyError ''name'')"
| "select_first (DataFrame rows) filename =
     (case filter (\<lambda>r. rname r = filename) rows of
        [] \<Rightarrow> Inl (IndexError ''single positional indexer is out-of-bounds'')
      | file_info # rest \<Rightarrow> Inr file_info)"
| "select_first (PyList rows) filename =
     Inl (TypeError ''list indices must be integers or slices, not str'')"

section \<open>The catalog client (\<open>api.py\<close>)\<close>

text \<open>
  \<open>self.ckan.action\<close>: what each action of the remote catalog answers, a value or a
  raised exception.
\<close>

record remote_ckan =
  package_list :: "exn + string list"
  package_search :: "string \<Rightarrow> exn + search_response"
  package_show :: "string \<Rightarrow> exn + package"

definition list_all_datasets :: "remote_ckan \<Rightarrow> bool \<Rightarrow> exn + string tabular" where
  "list_all_datasets ckan as_frame =
     (case package_list ckan of
        Inl e \<Rightarrow> Inl e
      | Inr result \<Rightarrow> if as_frame then Inr (DataFrame result) else Inr (PyList result))"

definition search_datasets :: "remote_ckan \<Rightarrow> string \<Rightarrow> bool \<Rightarrow> exn + package tabular" where
  "search_datasets ckan query as_frame =
     (case package_search ckan query of
        Inl e \<Rightarrow> Inl e
      | Inr result \<Rightarrow>
          (case sr_results result of
             Some results \<Rightarrow> if as_frame then Inr (DataFrame results) else Inr (PyList results)
           | None \<Rightarrow> Inr (PyList [])))"

text \<open>
  The \<open>try\<close> block holds both the call and the subscript \<open>['resources']\<close>; the handler
  catches \<open>CKANAPIError\<close> only, so the \<open>KeyError\<close> of a missing key leaves it.
\<close>

definition get_dataset_resources ::
  "remote_ckan \<Rightarrow> string \<Rightarrow> bool \<Rightarrow> exn + resource tabular option" where
  "get_dataset_resources ckan name as_frame =
     (case package_show ckan name of
        Inl e \<Rightarrow> if isinstance_CKANAPIError e then Inr None else Inl e
      | Inr pkg \<Rightarrow>
          (case pkg_resources pkg of
             None \<Rightarrow> Inl (KeyError ''resources'')
           | Some result \<Rightarrow>
               if as_frame then Inr (Some (DataFrame result)) else Inr (Some (PyList result))))"

definition get_dataset_info :: "remote_ckan \<Rightarrow> string \<Rightarrow> exn + package option" where
  "get_dataset_info ckan name =
     (case package_show ckan name of
        Inl e \<Rightarrow> if isinstance_CKANAPIError e then Inr None else Inl e
      | Inr pkg \<Rightarrow> Inr (Some pkg))"

section \<open>The file cache as the Facade sees it\<close>

text \<open>
  \<open>self.cache\<close>: the three methods of the cache object that \<open>core.py\<close> calls, over
  the cache's own state \<open>'c\<close> (its directory). Each call returns its value or the
  exception it raised, and the state it leaves behind.
\<close>

record 'c file_cache =
  cache_download_file :: "string \<Rightarrow> string \<Rightarrow> string \<Rightarrow> bool \<Rightarrow> 'c \<Rightarrow> (exn + string) \<times> 'c"
  cache_download_dataset ::
    "string \<Rightarrow> resource tabular \<Rightarrow> bool \<Rightarrow> 'c \<Rightarrow> (exn + string list) \<times> 'c"
  cache_file_exists :: "string \<Rightarrow> string \<Rightarrow> 'c \<Rightarrow> bool"

section \<open>The Facade (\<open>core.py\<close>)\<close>

text \<open>What \<open>load\<close> returns: the path of the local file, or the object loaded from it.\<close>

datatype 'o loaded = FilePath string | Loaded 'o

definition download_dataset ::
  "remote_ckan \<Rightarrow> 'c file_cache \<Rightarrow> string \<Rightarrow> bool \<Rightarrow> 'c \<Rightarrow> (exn + string list) \<times> 'c" where
  "download_dataset ckan cache name overwrite c =
     (case get_dataset_resources ckan name False of
        Inl e \<Rightarrow> (Inl e, c)
      | Inr None \<Rightarrow> (Inl (ValueError [Text ''Dataset '', Value name, Text '' not found'']), c)
      | Inr (Some resources) \<Rightarrow> cache_download_dataset cache name resources overwrite c)"

text \<open>
  \<open>load\<close>. \<open>smart_types\<close> is \<open>config.SMART_RETURN_FILETYPES\<close> and \<open>load_file\<close> is
  \<open>loader_factory.load_file\<close>; both are defined outside \<open>core.py\<close> and are taken as
  parameters, as is \<open>unicode_lower\<close> of the runtime. The checks come in the order of the source: the dataset, the omitted
  file name, the unknown file name, the url, the format, and only then the download.
  Both file-name checks start by evaluating \<open>dataset['name'].values\<close>, which is
  therefore evaluated once, before the two are told apart.
\<close>

definition load ::
  "remote_ckan \<Rightarrow> 'c file_cache \<Rightarrow> string list \<Rightarrow> (string \<Rightarrow> string \<Rightarrow> exn + 'o) \<Rightarrow>
   (string \<Rightarrow> string) \<Rightarrow> string \<Rightarrow> string option \<Rightarrow> bool \<Rightarrow> bool \<Rightarrow> 'c \<Rightarrow>
   (exn + 'o loaded) \<times> 'c" where
  "load ckan cache smart_types load_file unicode_lower name filename reload smart_return c =
     (case get_dataset_resources ckan name True of
        Inl e \<Rightarrow> (Inl e, c)
      | Inr None \<Rightarrow> (Inl (ValueError [Text ''Dataset '', Value name, Text '' not found'']), c)
      | Inr (Some dataset) \<Rightarrow>
          (case name_values dataset of
             Inl e \<Rightarrow> (Inl e, c)
           | Inr available_files \<Rightarrow>
               (case filename of
                  None \<Rightarrow>
                    (Inl (ValueError
                       [Text ''Please specify a file name from the following options:\<newline>'',
                        array_str available_files]), c)
                | Some fname \<Rightarrow>
                    if fname \<notin> set available_files then
                      (Inl (ValueError
                         [Text ''File '', Value fname, Text '' not found in dataset '',
                          Value name, Text '' with options:\<newline>'',
                          array_str available_files]), c)
                    else
                      (case select_first dataset fname of
                         Inl e \<Rightarrow> (Inl e, c)
                       | Inr file_info \<Rightarrow>
                           (case url file_info of
                              None \<Rightarrow>
                                (Inl (ValueError
                                   [Text ''File '', Value fname, Text '' in dataset '',
                                    Value name, Text '' does not have a valid url'']), c)
                            | Some u \<Rightarrow>
                                (case format file_info of
                                   None \<Rightarrow>
                                     (Inl (AttributeError
                                        ''object has no attribute lower''), c)
                                 | Some fmt \<Rightarrow>
                                     (let file_type = lower unicode_lower fmt in
                                      case cache_download_file cache name fname u reload c of
                                        (Inl e, c') \<Rightarrow> (Inl e, c')
                                      | (Inr file_path, c') \<Rightarrow>
                                          if smart_return \<and> file_type \<in> set smart_types then
                                            (case load_file file_path file_type of
                                               Inl e \<Rightarrow> (Inl e, c')
                                             | Inr obj \<Rightarrow> (Inr (Loaded obj), c'))
                                          else (Inr (FilePath file_path), c'))))))))"

definition get_available_files :: "remote_ckan \<Rightarrow> string \<Rightarrow> exn + string list" where
  "get_available_files ckan name =
     (case get_dataset_resources ckan name True of
        Inl e \<Rightarrow> Inl e
      | Inr None \<Rightarrow> Inl (ValueError [Text ''Dataset '', Value name, Text '' not found''])
      | Inr (Some dataset) \<Rightarrow> name_values dataset)"

definition is_file_cached :: "'c file_cache \<Rightarrow> string \<Rightarrow> string \<Rightarrow> 'c \<Rightarrow> bool" where
  "is_file_cached cache name filename c = cache_file_exists cache name filename c"

section \<open>The file cache of the specification\<close>

text \<open>
  Modelled from the spec: the state of the class \<open>FileCache\<close> (\<open>cache.py\<close> is not among
  the sources). The cache directory maps the path of each cache entry to its content;
  \<open>transfers\<close> lists the urls handed to the transport, in the order of the calls.
\<close>

record fs_state =
  files :: "string \<rightharpoonup> string"
  transfers :: "string list"

text \<open>
  Modelled from the spec: the path of a cache entry, missing with \<open>cache.py\<close>. "One
  subdirectory per dataset name under a configurable root cache path; one file per
  resource name inside it."
\<close>

definition FileCache_path :: "string \<Rightarrow> string \<Rightarrow> string \<Rightarrow> string" where
  "FileCache_path root dataset res = root @ ''/'' @ dataset @ ''/'' @ res"

text \<open>
  Modelled from the spec: \<open>FileCache.file_exists\<close>, missing with \<open>cache.py\<close>. "Pure
  filesystem presence check at the deterministic path."
\<close>

definition FileCache_file_exists :: "string \<Rightarrow> string \<Rightarrow> string \<Rightarrow> fs_state \<Rightarrow> bool" where
  "FileCache_file_exists root dataset res s \<longleftrightarrow> files s (FileCache_path root dataset res) \<noteq> None"

text \<open>
  Modelled from the spec: \<open>FileCache.download_file\<close>, missing with \<open>cache.py\<close>. "If the
  target path already exists and force is false, returns the existing path without any
  network activity. Otherwise streams the resource from url to the deterministic path
  and returns the path. A download failure is fatal and surfaces to the caller."
  \<open>http_get\<close> is the transport: the content behind a url, or the exception of a failed
  transfer. The specification leaves open what a failed transfer leaves on disk; the
  model leaves the directory as it was.
\<close>

definition FileCache_download_file ::
  "string \<Rightarrow> (string \<Rightarrow> exn + string) \<Rightarrow> string \<Rightarrow> string \<Rightarrow> string \<Rightarrow> bool \<Rightarrow> fs_state \<Rightarrow>
   (exn + string) \<times> fs_state" where
  "FileCache_download_file root http_get dataset res u force s =
     (let path = FileCache_path root dataset res in
      if files s path \<noteq> None \<and> \<not> force then (Inr path, s)
      else
        (case http_get u of
           Inl e \<Rightarrow> (Inl e, s\<lparr>transfers := transfers s @ [u]\<rparr>)
         | Inr content \<Rightarrow>
             (Inr path, s\<lparr>files := (files s)(path \<mapsto> content),
                           transfers := transfers s @ [u]\<rparr>)))"

text \<open>
  Modelled from the spec: the loop of \<open>FileCache.download_dataset\<close>, missing with
  \<open>cache.py\<close>. "Iterates the given resource list and applies download_file to each
  entry that has a valid URL; entries without a URL are silently skipped. Order of the
  returned list matches input order; each entry represents one successful download. Any
  one resource's network failure is fatal to the whole batch." A download is successful
  when \<open>download_file\<close> returns, by a transfer or on the entry already present.
\<close>

fun download_each ::
  "string \<Rightarrow> (string \<Rightarrow> exn + string) \<Rightarrow> string \<Rightarrow> resource list \<Rightarrow> bool \<Rightarrow> fs_state \<Rightarrow>
   (exn + string list) \<times> fs_state" where
  "download_each root http_get dataset [] force s = (Inr [], s)"
| "download_each root http_get dataset (r # rs) force s =
     (case url r of
        None \<Rightarrow> download_each root http_get dataset rs force s
      | Some u \<Rightarrow>
          (case FileCache_download_file root http_get dataset (rname r) u force s of
             (Inl e, s') \<Rightarrow> (Inl e, s')
           | (Inr path, s') \<Rightarrow>
               (case download_each root http_get dataset rs force s' of
                  (Inl e, s'') \<Rightarrow> (Inl e, s'')
                | (Inr downloaded, s'') \<Rightarrow> (Inr (rname r # downloaded), s''))))"

text \<open>
  Modelled from the spec: \<open>FileCache.download_dataset\<close>, missing with \<open>cache.py\<close>. The
  specification defines it on a resource list, which is what the Facade passes
  (\<open>as_frame=False\<close>); iterating a frame would yield its column labels, which are not
  resources.
\<close>

fun FileCache_download_dataset ::
  "string \<Rightarrow> (string \<Rightarrow> exn + string) \<Rightarrow> string \<Rightarrow> resource tabular \<Rightarrow> bool \<Rightarrow> fs_state \<Rightarrow>
   (exn + string list) \<times> fs_state" where
  "FileCache_download_dataset root http_get dataset (PyList resources) force s =
     download_each root http_get dataset resources force s"
| "FileCache_download_dataset root http_get dataset (DataFrame rows) force s =
     (Inl (TypeError ''string indices must be integers''), s)"

text \<open>
  Modelled from the spec: the object \<open>FileCache(cache_path)\<close> of \<open>cache.py\<close>, with the
  root directory and the transport it uses.
\<close>

definition FileCache :: "string \<Rightarrow> (string \<Rightarrow> exn + string) \<Rightarrow> fs_state file_cache" where
  "FileCache root http_get =
     \<lparr>cache_download_file = FileCache_download_file root http_get,
      cache_download_dataset = FileCache_download_dataset root http_get,
      cache_file_exists = FileCache_file_exists root\<rparr>"

section \<open>Example catalogs\<close>

definition budget_resources :: "resource list" where
  "budget_resources =
     [\<lparr>rname = ''2023.csv'', format = Some ''CSV'', url = Some ''http://x/2023.csv''\<rparr>,
      \<lparr>rname = ''2023.pdf'', format = Some ''pdf'', url = None\<rparr>]"

definition budget_package :: package where
  "budget_package =
     \<lparr>pkg_resources = Some budget_resources, pkg_metadata = [(''title'', ''Budget'')]\<rparr>"

text \<open>A catalog that holds the dataset \<open>budget\<close> and answers \<open>NotFound\<close> for every other name.\<close>

definition budget_show :: "string \<Rightarrow> exn + package" where
  "budget_show name =
     (if name = ''budget'' then Inr budget_package else Inl (CKAN NotFound ''Not found''))"

definition budget_search :: "string \<Rightarrow> exn + search_response" where
  "budget_search query = Inr \<lparr>sr_results = None, sr_count = 0\<rparr>"

definition budget_ckan :: remote_ckan where
  "budget_ckan =
     \<lparr>package_list = Inr [''budget''], package_search = budget_search,
      package_show = budget_show\<rparr>"

text \<open>
  A catalog whose server fails: the client finds no JSON in the response to
  \<open>package_show\<close> and raises the base class, with the url, the status and the body.
\<close>

definition faulty_show :: "string \<Rightarrow> exn + package" where
  "faulty_show name = Inl (CKAN CKANAPIError ''[url, 500, Internal Server Error]'')"

definition faulty_ckan :: remote_ckan where
  "faulty_ckan =
     \<lparr>package_list = Inr [], package_search = budget_search, package_show = faulty_show\<rparr>"

text \<open>A catalog whose dataset \<open>vacant\<close> exists and has no resources.\<close>

definition vacant_show :: "string \<Rightarrow> exn + package" where
  "vacant_show name = Inr \<lparr>pkg_resources = Some [], pkg_metadata = []\<rparr>"

definition vacant_ckan :: remote_ckan where
  "vacant_ckan =
     \<lparr>package_list = Inr [''vacant''], package_search = budget_search,
      package_show = vacant_show\<rparr>"

text \<open>
  A catalog whose dataset \<open>permits\<close> lists the name \<open>2024.csv\<close> twice, with
  different urls and formats.
\<close>

definition permits_resources :: "resource list" where
  "permits_resources =
     [\<lparr>rname = ''readme.txt'', format = Some ''TXT'', url = None\<rparr>,
      \<lparr>rname = ''2024.csv'', format = Some ''CSV'', url = Some ''http://x/first.csv''\<rparr>,
      \<lparr>rname = ''2024.csv'', format = Some ''ZIP'', url = Some ''http://x/second.zip''\<rparr>]"

definition permits_show :: "string \<Rightarrow> exn + package" where
  "permits_show name = Inr \<lparr>pkg_resources = Some permits_resources, pkg_metadata = []\<rparr>"

definition permits_ckan :: remote_ckan where
  "permits_ckan =
     \<lparr>package_list = Inr [''permits''], package_search = budget_search,
      package_show = permits_show\<rparr>"

section \<open>Example collaborators\<close>

text \<open>A transport that serves every url with the url itself as content.\<close>

definition echo_get :: "string \<Rightarrow> exn + string" where
  "echo_get u = Inr u"

definition empty_fs :: fs_state where
  "empty_fs = \<lparr>files = Map.empty, transfers = []\<rparr>"

text \<open>A cache directory that already holds the entry of \<open>budget/2023.csv\<close>.\<close>

definition warm_fs :: fs_state where
  "warm_fs = \<lparr>files = [''cache/budget/2023.csv'' \<mapsto> ''old''], transfers = []\<rparr>"

text \<open>
  A cache that counts its calls: every method call that can change the state adds one.
\<close>

definition counting_download_file ::
  "string \<Rightarrow> string \<Rightarrow> string \<Rightarrow> bool \<Rightarrow> nat \<Rightarrow> (exn + string) \<times> nat" where
  "counting_download_file dataset res u force n = (Inr (dataset @ ''/'' @ res), Suc n)"

definition counting_download_dataset ::
  "string \<Rightarrow> resource tabular \<Rightarrow> bool \<Rightarrow> nat \<Rightarrow> (exn + string list) \<times> nat" where
  "counting_download_dataset dataset resources force n = (Inr [], Suc n)"

definition counting_file_exists :: "string \<Rightarrow> string \<Rightarrow> nat \<Rightarrow> bool" where
  "counting_file_exists dataset res n = False"

definition counting_cache :: "nat file_cache" where
  "counting_cache =
     \<lparr>cache_download_file = counting_download_file,
      cache_download_dataset = counting_download_dataset,
      cache_file_exists = counting_file_exists\<rparr>"

text \<open>A set of smart-return formats and a loader that returns the format and the path.\<close>

definition example_smart_types :: "string list" where
  "example_smart_types = [''csv'', ''json'', ''geojson'', ''xlsx'']"

definition example_load_file :: "string \<Rightarrow> string \<Rightarrow> exn + string \<times> string" where
  "example_load_file file_path file_type = Inr (file_type, file_path)"

text \<open>
  A stand-in for the Unicode tables; no example below holds a character outside ASCII,
  so it is never consulted.
\<close>

definition example_unicode_lower :: "string \<Rightarrow> string" where
  "example_unicode_lower s = s"

section \<open>The catalog client: absent values and faults\<close>

lemma get_dataset_resources_None_iff:
  "get_dataset_resources ckan name as_frame = Inr None \<longleftrightarrow>
     (\<exists>e. package_show ckan name = Inl e \<and> isinstance_CKANAPIError e)"
  by (auto simp: get_dataset_resources_def split: sum.splits option.splits)

lemma get_dataset_info_None_iff:
  "get_dataset_info ckan name = Inr None \<longleftrightarrow>
     (\<exists>e. package_show ckan name = Inl e \<and> isinstance_CKANAPIError e)"
  by (auto simp: get_dataset_info_def split: sum.splits)

text \<open>
  Faults that the handler does not catch reach the caller: an exception of another class
  raised by \<open>package_show\<close>, and the \<open>KeyError\<close> of a response without the
  \<open>resources\<close> key.
\<close>

lemma catalog_fault_propagates:
  assumes "package_show ckan name = Inl e" and "\<not> isinstance_CKANAPIError e"
  shows "get_dataset_resources ckan name as_frame = Inl e"
    and "get_dataset_info ckan name = Inl e"
  using assms by (simp_all add: get_dataset_resources_def get_dataset_info_def)

lemma resources_key_missing:
  assumes "package_show ckan name = Inr pkg" and "pkg_resources pkg = None"
  shows "get_dataset_resources ckan name as_frame = Inl (KeyError ''resources'')"
  using assms by (simp add: get_dataset_resources_def)

text \<open>
  C1, at a catalog whose server fails while the dataset may well exist: the client
  library raises \<open>CKANAPIError\<close>, which is not the not-found signal, and
  \<open>get_dataset_resources\<close> and \<open>get_dataset_info\<close> return \<open>None\<close> all the same,
  where their docstrings say "None if not found".
\<close>

theorem catalog_server_failure_returns_None:
  "package_show faulty_ckan ''budget'' =
     Inl (CKAN CKANAPIError ''[url, 500, Internal Server Error]'') \<and>
   \<not> signals_not_found (CKAN CKANAPIError ''[url, 500, Internal Server Error]'') \<and>
   get_dataset_resources faulty_ckan ''budget'' False = Inr None \<and>
   get_dataset_info faulty_ckan ''budget'' = Inr None"
  by (simp add: faulty_ckan_def faulty_show_def get_dataset_resources_def get_dataset_info_def)

text \<open>
  C10. When the response of \<open>package_search\<close> has no \<open>results\<close> key, \<open>search_datasets\<close>
  returns the plain empty list for either value of \<open>as_frame\<close>, never an empty frame.
\<close>

theorem search_datasets_no_results_key:
  assumes "package_search ckan query = Inr result" and "sr_results result = None"
  shows "search_datasets ckan query as_frame = Inr (PyList []) \<and>
         search_datasets ckan query as_frame \<noteq> Inr (DataFrame [])"
  using assms by (simp add: search_datasets_def)

theorem search_datasets_no_results_key_witness:
  "search_datasets budget_ckan ''transit'' True = Inr (PyList []) \<and>
   search_datasets budget_ckan ''transit'' True \<noteq> Inr (DataFrame [])"
  using search_datasets_no_results_key
    [of budget_ckan "''transit''" "\<lparr>sr_results = None, sr_count = 0\<rparr>" True]
  by (simp add: budget_ckan_def budget_search_def)

section \<open>The Facade: how \<open>load\<close> runs\<close>

lemma absent_any_flag:
  "get_dataset_resources ckan name as_frame = Inr None \<Longrightarrow>
   get_dataset_resources ckan name as_frame' = Inr None"
  by (simp add: get_dataset_resources_None_iff)

lemma resources_frame:
  "package_show ckan name = Inr pkg \<Longrightarrow> pkg_resources pkg = Some rows \<Longrightarrow>
   get_dataset_resources ckan name True = Inr (Some (DataFrame rows))"
  by (simp add: get_dataset_resources_def)

lemma resources_list:
  "package_show ckan name = Inr pkg \<Longrightarrow> pkg_resources pkg = Some rows \<Longrightarrow>
   get_dataset_resources ckan name False = Inr (Some (PyList rows))"
  by (simp add: get_dataset_resources_def)

lemma name_values_frame:
  "rows \<noteq> [] \<Longrightarrow> name_values (DataFrame rows) = Inr (map rname rows)"
  by (cases rows) simp_all

lemma filter_head_find:
  "(case filter P xs of [] \<Rightarrow> a | x # rest \<Rightarrow> b x) =
   (case find P xs of None \<Rightarrow> a | Some x \<Rightarrow> b x)"
  by (induction xs) simp_all

lemma select_first_frame:
  "rows \<noteq> [] \<Longrightarrow> select_first (DataFrame rows) fname =
     (case find (\<lambda>r. rname r = fname) rows of
        None \<Rightarrow> Inl (IndexError ''single positional indexer is out-of-bounds'')
      | Some file_info \<Rightarrow> Inr file_info)"
  by (cases rows) (simp_all only: select_first.simps filter_head_find, simp)

lemma find_name_in_names:
  "find (\<lambda>r. rname r = fname) rows = Some r \<Longrightarrow> rows \<noteq> [] \<and> fname \<in> set (map rname rows)"
  by (auto simp: find_Some_iff)

lemma find_first_match:
  "rname r = fname \<Longrightarrow> \<forall>x\<in>set pre. rname x \<noteq> fname \<Longrightarrow>
   find (\<lambda>r. rname r = fname) (pre @ r # post) = Some r"
  by (induction pre) simp_all

lemma lower_CSV: "lower unicode_lower ''CSV'' = ''csv''"
  by code_simp

lemma array_str_all: "length names \<le> 1000 \<Longrightarrow> array_str names = Array names"
  by (simp add: array_str_def)

lemma load_absent:
  "get_dataset_resources ckan name True = Inr None \<Longrightarrow>
   load ckan cache smart_types load_file unicode_lower name filename reload smart_return c =
     (Inl (ValueError [Text ''Dataset '', Value name, Text '' not found'']), c)"
  by (simp add: load_def)

text \<open>
  On a dataset with at least one resource, an omitted or unknown file name is answered
  with a \<open>ValueError\<close> that carries the printed array of the resource names, in the
  catalog's order: all of them up to 1000 names, the first and last three beyond.
\<close>

lemma load_names:
  assumes "get_dataset_resources ckan name True = Inr (Some (DataFrame rows))"
    and "rows \<noteq> []"
  shows "load ckan cache smart_types load_file unicode_lower name None reload smart_return c =
     (Inl (ValueError
        [Text ''Please specify a file name from the following options:\<newline>'',
         array_str (map rname rows)]), c)"
  and "fname \<notin> set (map rname rows) \<Longrightarrow>
   load ckan cache smart_types load_file unicode_lower name (Some fname) reload smart_return c =
     (Inl (ValueError
        [Text ''File '', Value fname, Text '' not found in dataset '',
         Value name, Text '' with options:\<newline>'', array_str (map rname rows)]), c)"
  using assms by (simp_all add: load_def name_values_frame)

text \<open>
  Once the file name is found, everything \<open>load\<close> does is determined by the first
  resource of that name.
\<close>

lemma load_matched:
  assumes "get_dataset_resources ckan name True = Inr (Some (DataFrame rows))"
    and "find (\<lambda>r. rname r = fname) rows = Some file_info"
  shows "load ckan cache smart_types load_file unicode_lower name (Some fname) reload smart_return c =
     (case url file_info of
        None \<Rightarrow>
          (Inl (ValueError
             [Text ''File '', Value fname, Text '' in dataset '',
              Value name, Text '' does not have a valid url'']), c)
      | Some u \<Rightarrow>
          (case format file_info of
             None \<Rightarrow> (Inl (AttributeError ''object has no attribute lower''), c)
           | Some fmt \<Rightarrow>
               (case cache_download_file cache name fname u reload c of
                  (Inl e, c') \<Rightarrow> (Inl e, c')
                | (Inr file_path, c') \<Rightarrow>
                    if smart_return \<and> lower unicode_lower fmt \<in> set smart_types then
                      (case load_file file_path (lower unicode_lower fmt) of
                         Inl e \<Rightarrow> (Inl e, c')
                       | Inr obj \<Rightarrow> (Inr (Loaded obj), c'))
                    else (Inr (FilePath file_path), c'))))"
proof -
  from assms(2) have ne: "rows \<noteq> []" and mem: "fname \<in> set (map rname rows)"
    using find_name_in_names by fastforce+
  show ?thesis
    using assms mem by (simp add: load_def Let_def name_values_frame [OF ne] select_first_frame [OF ne] split: option.split)
qed

lemma download_dataset_absent:
  "get_dataset_resources ckan name False = Inr None \<Longrightarrow>
   download_dataset ckan cache name overwrite c =
     (Inl (ValueError [Text ''Dataset '', Value name, Text '' not found'']), c)"
  by (simp add: download_dataset_def)

lemma get_available_files_absent:
  "get_dataset_resources ckan name True = Inr None \<Longrightarrow>
   get_available_files ckan name =
     Inl (ValueError [Text ''Dataset '', Value name, Text '' not found''])"
  by (simp add: get_available_files_def)

section \<open>The Facade: errors\<close>

text \<open>
  C2. When the catalog client returns \<open>None\<close> for a dataset name (with either value of
  \<open>as_frame\<close>), \<open>load\<close>, \<open>download_dataset\<close> and \<open>get_available_files\<close> each raise
  the \<open>ValueError\<close> "Dataset ... not found"; none of them returns a value, and the
  cache is left as it was.
\<close>

theorem absent_dataset_not_found:
  assumes "get_dataset_resources ckan name as_frame = Inr None"
  shows "load ckan cache smart_types load_file unicode_lower name filename reload smart_return c =
           (Inl (ValueError [Text ''Dataset '', Value name, Text '' not found'']), c) \<and>
         download_dataset ckan cache name overwrite c =
           (Inl (ValueError [Text ''Dataset '', Value name, Text '' not found'']), c) \<and>
         get_available_files ckan name =
           Inl (ValueError [Text ''Dataset '', Value name, Text '' not found''])"
proof -
  have t: "get_dataset_resources ckan name True = Inr None"
    and f: "get_dataset_resources ckan name False = Inr None"
    using assms by (rule absent_any_flag)+
  show ?thesis
    by (simp only: load_absent [OF t] download_dataset_absent [OF f]
          get_available_files_absent [OF t])
qed

theorem absent_dataset_not_found_witness:
  "load budget_ckan counting_cache example_smart_types example_load_file
     example_unicode_lower
     ''parking'' (Some ''lots.csv'') False True 0 =
     (Inl (ValueError [Text ''Dataset '', Value ''parking'', Text '' not found'']), 0) \<and>
   download_dataset budget_ckan counting_cache ''parking'' False 0 =
     (Inl (ValueError [Text ''Dataset '', Value ''parking'', Text '' not found'']), 0) \<and>
   get_available_files budget_ckan ''parking'' =
     Inl (ValueError [Text ''Dataset '', Value ''parking'', Text '' not found''])"
proof -
  have h: "get_dataset_resources budget_ckan ''parking'' True = Inr None"
    by (simp add: get_dataset_resources_def budget_ckan_def budget_show_def)
  show ?thesis
    using absent_dataset_not_found [OF h, of counting_cache example_smart_types
        example_load_file example_unicode_lower "Some ''lots.csv''" False True 0 False]
    by simp
qed



text \<open>
  C5, at a dataset that exists and has no resources: the frame has no \<open>name\<close> column,
  and \<open>load\<close> raises \<open>KeyError\<close> where its docstring promises a \<open>ValueError\<close> with the
  available names, whether the file name is omitted or given.
\<close>

theorem load_vacant_dataset:
  "load vacant_ckan counting_cache example_smart_types example_load_file
     example_unicode_lower
     ''vacant'' None False True 0 = (Inl (KeyError ''name''), 0) \<and>
   load vacant_ckan counting_cache example_smart_types example_load_file
     example_unicode_lower
     ''vacant'' (Some ''data.csv'') False True 0 = (Inl (KeyError ''name''), 0)"
  by (simp add: load_def get_dataset_resources_def vacant_ckan_def vacant_show_def)

text \<open>
  C8. A call of \<open>load\<close> that fails one of its four validations (the dataset is absent;
  the file name is omitted; the file name is not among the names; the selected resource
  has a null url) raises its \<open>ValueError\<close> without calling the cache: the same error
  comes back whatever the cache object is, and the cache state is the one passed in.
\<close>

theorem load_validation_error_no_download:
  assumes "get_dataset_resources ckan name True = Inr None \<or>
     (\<exists>rows. get_dataset_resources ckan name True = Inr (Some (DataFrame rows)) \<and>
        rows \<noteq> [] \<and>
        (filename = None \<or>
         (\<exists>fname. filename = Some fname \<and>
            (fname \<notin> set (map rname rows) \<or>
             (\<exists>file_info. find (\<lambda>r. rname r = fname) rows = Some file_info \<and>
                url file_info = None)))))"
  shows "\<exists>msg. \<forall>cache c. load ckan cache smart_types load_file unicode_lower name filename reload smart_return c =
           (Inl (ValueError msg), c)"
  using assms
proof (elim disjE exE conjE)
  assume "get_dataset_resources ckan name True = Inr None"
  then show ?thesis by (simp add: load_absent)
next
  fix rows
  assume "get_dataset_resources ckan name True = Inr (Some (DataFrame rows))"
    "rows \<noteq> []" "filename = None"
  then show ?thesis by (simp add: load_names(1))
next
  fix rows fname
  assume "get_dataset_resources ckan name True = Inr (Some (DataFrame rows))"
    "rows \<noteq> []" "filename = Some fname" "fname \<notin> set (map rname rows)"
  then show ?thesis by (simp add: load_names(2))
next
  fix rows fname file_info
  assume "get_dataset_resources ckan name True = Inr (Some (DataFrame rows))"
    "filename = Some fname" "find (\<lambda>r. rname r = fname) rows = Some file_info"
    "url file_info = None"
  then show ?thesis by (simp add: load_matched)
qed

theorem load_validation_error_no_download_witness:
  "(\<exists>msg. \<forall>c. load budget_ckan counting_cache example_smart_types example_load_file
     example_unicode_lower
      ''budget'' (Some ''2023.pdf'') False True c = (Inl (ValueError msg), c)) \<and>
   load budget_ckan counting_cache example_smart_types example_load_file
     example_unicode_lower
     ''budget'' (Some ''2023.csv'') False True 0 =
     (Inr (Loaded (''csv'', ''budget/2023.csv'')), Suc 0)"
proof -
  have h: "get_dataset_resources budget_ckan ''budget'' True = Inr None \<or>
     (\<exists>rows. get_dataset_resources budget_ckan ''budget'' True = Inr (Some (DataFrame rows)) \<and>
        rows \<noteq> [] \<and>
        (Some ''2023.pdf'' = None \<or>
         (\<exists>fname. Some ''2023.pdf'' = Some fname \<and>
            (fname \<notin> set (map rname rows) \<or>
             (\<exists>file_info. find (\<lambda>r. rname r = fname) rows = Some file_info \<and>
                url file_info = None)))))"
    by (simp add: get_dataset_resources_def budget_ckan_def budget_show_def
          budget_package_def budget_resources_def)
  have ok: "load budget_ckan counting_cache example_smart_types example_load_file
     example_unicode_lower
     ''budget'' (Some ''2023.csv'') False True 0 =
     (Inr (Loaded (''csv'', ''budget/2023.csv'')), Suc 0)"
    by (simp add: load_def get_dataset_resources_def budget_ckan_def budget_show_def
        budget_package_def budget_resources_def counting_cache_def
        counting_download_file_def example_smart_types_def
        example_load_file_def lower_CSV Let_def)
  from load_validation_error_no_download [OF h, of example_smart_types example_load_file
     example_unicode_lower
      False True]
  obtain msg where "\<forall>(cache :: nat file_cache) c.
      load budget_ckan cache example_smart_types example_load_file
     example_unicode_lower
        ''budget'' (Some ''2023.pdf'') False True c = (Inl (ValueError msg), c)"
    by blast
  then have "\<forall>c. load budget_ckan counting_cache example_smart_types example_load_file
     example_unicode_lower
      ''budget'' (Some ''2023.pdf'') False True c = (Inl (ValueError msg), c)"
    by blast
  with ok show ?thesis by blast
qed

section \<open>The Facade: what \<open>load\<close> returns\<close>

lemma resources_is_frame:
  "get_dataset_resources ckan name True = Inr (Some dataset) \<Longrightarrow>
   \<exists>rows. dataset = DataFrame rows"
  by (auto simp: get_dataset_resources_def split: sum.splits option.splits if_splits)

lemma name_values_Inr:
  "name_values (DataFrame rows) = Inr names \<Longrightarrow> rows \<noteq> [] \<and> names = map rname rows"
  by (cases rows) auto

lemma load_Inr_shape:
  assumes "load ckan cache smart_types load_file unicode_lower name filename reload smart_return c =
      (Inr result, c')"
  shows "\<exists>rows fname file_info.
      get_dataset_resources ckan name True = Inr (Some (DataFrame rows)) \<and>
      filename = Some fname \<and> find (\<lambda>r. rname r = fname) rows = Some file_info"
proof -
  obtain dataset where d: "get_dataset_resources ckan name True = Inr (Some dataset)"
    using assms by (auto simp: load_def split: sum.splits option.splits)
  then obtain rows where r: "dataset = DataFrame rows"
    using resources_is_frame by blast
  obtain names where n: "name_values (DataFrame rows) = Inr names"
    using assms d r by (auto simp: load_def split: sum.splits)
  then have ne: "rows \<noteq> []" and names: "names = map rname rows"
    using name_values_Inr by blast+
  obtain fname where f: "filename = Some fname"
    using assms d r n by (auto simp: load_def split: option.splits)
  have mem: "fname \<in> set (map rname rows)"
    using assms d r n f names by (auto simp: load_def split: if_splits)
  then obtain file_info where "find (\<lambda>r. rname r = fname) rows = Some file_info"
    by (cases "find (\<lambda>r. rname r = fname) rows") (auto simp: find_None_iff)
  with d r f show ?thesis by blast
qed

lemma load_budget_csv:
  "load budget_ckan (FileCache ''cache'' echo_get) example_smart_types example_load_file
     example_unicode_lower ''budget'' (Some ''2023.csv'') False True empty_fs =
     (Inr (Loaded (''csv'', ''cache/budget/2023.csv'')),
      \<lparr>files = [''cache/budget/2023.csv'' \<mapsto> ''http://x/2023.csv''],
       transfers = [''http://x/2023.csv'']\<rparr>)"
  by (simp add: load_def get_dataset_resources_def budget_ckan_def budget_show_def
        budget_package_def budget_resources_def FileCache_def FileCache_download_file_def
        FileCache_path_def echo_get_def empty_fs_def example_smart_types_def
        example_load_file_def lower_CSV Let_def)

subsection \<open>Lower-casing and comparison up to case\<close>

lemma same_letter_lower_char: "same_letter c (lower_char c)"
  by (simp add: same_letter_def lower_char_def Let_def)

lemma lower_char_unique:
  assumes "same_letter c d" and "\<not> (65 \<le> (of_char d :: nat) \<and> (of_char d :: nat) \<le> 90)"
  shows "d = lower_char c"
proof -
  consider "(of_char c :: nat) = of_char d"
    | "65 \<le> (of_char c :: nat)" "(of_char c :: nat) \<le> 90" "(of_char d :: nat) = of_char c + 32"
    using assms by (auto simp: same_letter_def Let_def)
  then show ?thesis
  proof cases
    case 1
    then have "c = d" by simp
    with assms(2) show ?thesis by (auto simp: lower_char_def Let_def)
  next
    case 2
    have "d = char_of (of_char d :: nat)" by simp
    with 2 show ?thesis by (simp add: lower_char_def Let_def)
  qed
qed

lemma equal_ignoring_case_lower:
  "isascii s \<Longrightarrow> equal_ignoring_case s (lower unicode_lower s)"
  by (simp add: equal_ignoring_case_def lower_def list_all2_map2 list_all2_same
        same_letter_lower_char)

lemma map_lower_char_unique:
  "list_all2 same_letter s t \<Longrightarrow> \<not> has_upper t \<Longrightarrow> t = map lower_char s"
proof (induction rule: list_all2_induct)
  case Nil
  then show ?case by simp
next
  case (Cons c s d t)
  from Cons.prems have d: "\<not> (65 \<le> (of_char d :: nat) \<and> (of_char d :: nat) \<le> 90)"
    and t: "\<not> has_upper t"
    by (simp_all add: has_upper_def)
  from lower_char_unique [OF Cons.hyps(1) d] Cons.IH [OF t] show ?case by simp
qed

lemma lower_unique:
  "isascii s \<Longrightarrow> equal_ignoring_case s t \<Longrightarrow> \<not> has_upper t \<Longrightarrow> t = lower unicode_lower s"
  by (simp add: equal_ignoring_case_def lower_def map_lower_char_unique)

lemma lower_member_iff:
  assumes "isascii fmt" and "\<forall>t\<in>set smart_types. \<not> has_upper t"
  shows "lower unicode_lower fmt \<in> set smart_types \<longleftrightarrow>
         (\<exists>t\<in>set smart_types. equal_ignoring_case fmt t)"
proof
  assume "lower unicode_lower fmt \<in> set smart_types"
  with equal_ignoring_case_lower [OF assms(1)]
  show "\<exists>t\<in>set smart_types. equal_ignoring_case fmt t" by blast
next
  assume "\<exists>t\<in>set smart_types. equal_ignoring_case fmt t"
  then obtain t where t: "t \<in> set smart_types" "equal_ignoring_case fmt t" by blast
  with assms(2) have "\<not> has_upper t" by blast
  with lower_unique [OF assms(1) t(2)] t(1) show "lower unicode_lower fmt \<in> set smart_types"
    by simp
qed

text \<open>
  C4, with the test that \<open>load\<close> makes. A call of \<open>load\<close> that returns has downloaded
  the selected resource, and its result is the loaded object exactly when
  \<open>smart_return\<close> is set and the format, lower-cased by \<open>str.lower\<close>, is an element
  of the configured set; otherwise it is the path that \<open>download_file\<close> returned. For
  an ASCII format and a configured set without upper-case letters, that membership is
  membership up to the case of the letters.
\<close>

theorem load_smart_return:
  assumes "load ckan cache smart_types load_file unicode_lower name filename reload
      smart_return c = (Inr result, c')"
  shows "\<exists>rows fname file_info u fmt file_path.
      get_dataset_resources ckan name True = Inr (Some (DataFrame rows)) \<and>
      filename = Some fname \<and>
      find (\<lambda>r. rname r = fname) rows = Some file_info \<and>
      url file_info = Some u \<and> format file_info = Some fmt \<and>
      cache_download_file cache name fname u reload c = (Inr file_path, c') \<and>
      (if smart_return \<and> lower unicode_lower fmt \<in> set smart_types
       then \<exists>obj. load_file file_path (lower unicode_lower fmt) = Inr obj \<and>
              result = Loaded obj
       else result = FilePath file_path) \<and>
      (isascii fmt \<and> (\<forall>t\<in>set smart_types. \<not> has_upper t) \<longrightarrow>
         (lower unicode_lower fmt \<in> set smart_types \<longleftrightarrow>
          (\<exists>t\<in>set smart_types. equal_ignoring_case fmt t)))"
proof -
  obtain rows fname file_info where
    d: "get_dataset_resources ckan name True = Inr (Some (DataFrame rows))" and
    f: "filename = Some fname" and
    m: "find (\<lambda>r. rname r = fname) rows = Some file_info"
    using load_Inr_shape [OF assms] by blast
  note eq = load_matched [OF d m, of cache smart_types load_file unicode_lower reload
      smart_return c]
  obtain u where u: "url file_info = Some u"
    using assms eq f by (cases "url file_info") auto
  obtain fmt where fmt: "format file_info = Some fmt"
    using assms eq f u by (cases "format file_info") auto
  obtain file_path where dl:
    "cache_download_file cache name fname u reload c = (Inr file_path, c')"
    using assms eq f u fmt
    by (auto split: prod.splits sum.splits if_splits)
  have res: "if smart_return \<and> lower unicode_lower fmt \<in> set smart_types
       then \<exists>obj. load_file file_path (lower unicode_lower fmt) = Inr obj \<and>
              result = Loaded obj
       else result = FilePath file_path"
    using assms eq f u fmt dl by (auto split: sum.splits if_splits)
  have ci: "isascii fmt \<and> (\<forall>t\<in>set smart_types. \<not> has_upper t) \<longrightarrow>
         (lower unicode_lower fmt \<in> set smart_types \<longleftrightarrow>
          (\<exists>t\<in>set smart_types. equal_ignoring_case fmt t))"
    using lower_member_iff by blast
  from d f m u fmt dl res ci show ?thesis by blast
qed

theorem load_smart_return_witness:
  "load budget_ckan (FileCache ''cache'' echo_get) example_smart_types example_load_file
     example_unicode_lower ''budget'' (Some ''2023.csv'') False True empty_fs =
     (Inr (Loaded (''csv'', ''cache/budget/2023.csv'')),
      \<lparr>files = [''cache/budget/2023.csv'' \<mapsto> ''http://x/2023.csv''],
       transfers = [''http://x/2023.csv'']\<rparr>) \<and>
   lower example_unicode_lower ''CSV'' \<in> set example_smart_types \<and>
   (\<exists>t. t \<in> set example_smart_types \<and> equal_ignoring_case ''CSV'' t)"
proof -
  from load_smart_return [OF load_budget_csv]
  obtain rows fname file_info u fmt file_path where
    d: "get_dataset_resources budget_ckan ''budget'' True = Inr (Some (DataFrame rows))" and
    f: "Some ''2023.csv'' = Some fname" and
    m: "find (\<lambda>r. rname r = fname) rows = Some file_info" and
    fmt: "format file_info = Some fmt" and
    res: "if True \<and> lower example_unicode_lower fmt \<in> set example_smart_types
       then \<exists>obj. example_load_file file_path (lower example_unicode_lower fmt) = Inr obj \<and>
              Loaded (''csv'', ''cache/budget/2023.csv'') = Loaded obj
       else Loaded (''csv'', ''cache/budget/2023.csv'') = FilePath file_path" and
    ci: "isascii fmt \<and> (\<forall>t\<in>set example_smart_types. \<not> has_upper t) \<longrightarrow>
         (lower example_unicode_lower fmt \<in> set example_smart_types \<longleftrightarrow>
          (\<exists>t\<in>set example_smart_types. equal_ignoring_case fmt t))"
    by blast
  from d have rows: "rows = budget_resources"
    by (simp add: get_dataset_resources_def budget_ckan_def budget_show_def
          budget_package_def)
  from m f rows have "fmt = ''CSV''"
    using fmt by (auto simp: budget_resources_def)
  moreover have "isascii ''CSV''" by code_simp
  moreover have "\<forall>t\<in>set example_smart_types. \<not> has_upper t" by code_simp
  moreover from res have "lower example_unicode_lower fmt \<in> set example_smart_types"
    by (simp split: if_splits)
  ultimately show ?thesis
    using ci load_budget_csv by blast
qed

text \<open>
  C4 with "compared case-insensitively" fails for a configured set that holds an
  upper-case entry: the format \<open>CSV\<close> of the resource is in the set \<open>[CSV]\<close>, letter
  for letter, and \<open>load\<close> with \<open>smart_return\<close> set returns the path, since it looks
  for \<open>csv\<close>.
\<close>

theorem load_upper_case_config_counterexample:
  "rname (hd budget_resources) = ''2023.csv'' \<and>
   format (hd budget_resources) = Some ''CSV'' \<and>
   ''CSV'' \<in> set [''CSV''] \<and>
   equal_ignoring_case ''CSV'' ''CSV'' \<and>
   load budget_ckan (FileCache ''cache'' echo_get) [''CSV''] example_load_file
     example_unicode_lower ''budget'' (Some ''2023.csv'') False True empty_fs =
     (Inr (FilePath ''cache/budget/2023.csv''),
      \<lparr>files = [''cache/budget/2023.csv'' \<mapsto> ''http://x/2023.csv''],
       transfers = [''http://x/2023.csv'']\<rparr>)"
proof (intro conjI)
  show "equal_ignoring_case ''CSV'' ''CSV''" by code_simp
  show "load budget_ckan (FileCache ''cache'' echo_get) [''CSV''] example_load_file
     example_unicode_lower ''budget'' (Some ''2023.csv'') False True empty_fs =
     (Inr (FilePath ''cache/budget/2023.csv''),
      \<lparr>files = [''cache/budget/2023.csv'' \<mapsto> ''http://x/2023.csv''],
       transfers = [''http://x/2023.csv'']\<rparr>)"
    by (simp add: load_def get_dataset_resources_def budget_ckan_def budget_show_def
        budget_package_def budget_resources_def FileCache_def FileCache_download_file_def
        FileCache_path_def echo_get_def empty_fs_def lower_CSV Let_def)
qed (simp_all add: budget_resources_def)

text \<open>
  C9. When several resources carry the requested name, \<open>load\<close> works on the first of
  them in the list's order: its url is tested and passed to \<open>download_file\<close>, and its
  format decides the smart return. The resources after it play no part.
\<close>

theorem load_first_match:
  assumes "package_show ckan name = Inr pkg"
    and "pkg_resources pkg = Some (pre @ file_info # post)"
    and "rname file_info = fname"
    and "\<forall>r\<in>set pre. rname r \<noteq> fname"
  shows "load ckan cache smart_types load_file unicode_lower name (Some fname) reload smart_return c =
     (case url file_info of
        None \<Rightarrow>
          (Inl (ValueError
             [Text ''File '', Value fname, Text '' in dataset '',
              Value name, Text '' does not have a valid url'']), c)
      | Some u \<Rightarrow>
          (case format file_info of
             None \<Rightarrow> (Inl (AttributeError ''object has no attribute lower''), c)
           | Some fmt \<Rightarrow>
               (case cache_download_file cache name fname u reload c of
                  (Inl e, c') \<Rightarrow> (Inl e, c')
                | (Inr file_path, c') \<Rightarrow>
                    if smart_return \<and> lower unicode_lower fmt \<in> set smart_types then
                      (case load_file file_path (lower unicode_lower fmt) of
                         Inl e \<Rightarrow> (Inl e, c')
                       | Inr obj \<Rightarrow> (Inr (Loaded obj), c'))
                    else (Inr (FilePath file_path), c'))))"
  by (rule load_matched [OF resources_frame [OF assms(1,2)] find_first_match [OF assms(3,4)]])

theorem load_first_match_witness:
  "load permits_ckan (FileCache ''cache'' echo_get) example_smart_types example_load_file
     example_unicode_lower
     ''permits'' (Some ''2024.csv'') False True empty_fs =
     (Inr (Loaded (''csv'', ''cache/permits/2024.csv'')),
      \<lparr>files = [''cache/permits/2024.csv'' \<mapsto> ''http://x/first.csv''],
       transfers = [''http://x/first.csv'']\<rparr>)"
proof -
  have a: "package_show permits_ckan ''permits'' =
      Inr \<lparr>pkg_resources = Some permits_resources, pkg_metadata = []\<rparr>"
    by (simp add: permits_ckan_def permits_show_def)
  have b: "pkg_resources \<lparr>pkg_resources = Some permits_resources, pkg_metadata = []\<rparr> =
      Some ([\<lparr>rname = ''readme.txt'', format = Some ''TXT'', url = None\<rparr>] @
        \<lparr>rname = ''2024.csv'', format = Some ''CSV'', url = Some ''http://x/first.csv''\<rparr> #
        [\<lparr>rname = ''2024.csv'', format = Some ''ZIP'', url = Some ''http://x/second.zip''\<rparr>])"
    by (simp add: permits_resources_def)
  have c: "rname \<lparr>rname = ''2024.csv'', format = Some ''CSV'',
      url = Some ''http://x/first.csv''\<rparr> = ''2024.csv''"
    by simp
  have d: "\<forall>r\<in>set [\<lparr>rname = ''readme.txt'', format = Some ''TXT'', url = None\<rparr>].
      rname r \<noteq> ''2024.csv''"
    by simp
  show ?thesis
    using load_first_match [OF a b c d, of "FileCache ''cache'' echo_get"
        example_smart_types example_load_file
     example_unicode_lower False True empty_fs]
    by (simp add: FileCache_def FileCache_download_file_def FileCache_path_def echo_get_def
          empty_fs_def example_smart_types_def example_load_file_def lower_CSV Let_def)
qed

section \<open>The file cache of the specification: downloads\<close>

lemma download_file_hit:
  "files s (FileCache_path root dataset res) \<noteq> None \<Longrightarrow>
   FileCache_download_file root http_get dataset res u False s =
     (Inr (FileCache_path root dataset res), s)"
  by (simp add: FileCache_download_file_def)

lemma download_file_transfers:
  "transfers (snd (FileCache_download_file root http_get dataset res u force s)) =
     transfers s @
       (if force \<or> files s (FileCache_path root dataset res) = None then [u] else [])"
  by (simp add: FileCache_download_file_def Let_def split: sum.split)

lemma download_file_Inr:
  assumes "FileCache_download_file root http_get dataset res u force s = (Inr path, s')"
  shows "path = FileCache_path root dataset res" and "files s' path \<noteq> None"
  using assms
  by (auto simp: FileCache_download_file_def Let_def split: if_splits sum.splits)

lemma download_file_succeeds:
  "http_get u = Inr content \<Longrightarrow>
   \<exists>s'. FileCache_download_file root http_get dataset res u force s =
     (Inr (FileCache_path root dataset res), s')"
  by (simp add: FileCache_download_file_def Let_def)

lemma warm_fs_entry:
  "files warm_fs (FileCache_path ''cache'' ''budget'' ''2023.csv'') = Some ''old''"
  by (simp add: warm_fs_def FileCache_path_def)

lemma empty_fs_entry:
  "files empty_fs (FileCache_path ''cache'' ''budget'' ''2023.csv'') = None"
  by (simp add: empty_fs_def)

text \<open>
  C7. \<open>download_file\<close> hands the url to the transport exactly when \<open>force\<close> is set or
  the cache holds no entry at the path of the dataset and resource: the list of transfers
  grows by that one url, or stays as it is. With \<open>force\<close> unset and the entry present
  the call returns the path and leaves the cache as it was; and after any call that
  returned, a further call with \<open>force\<close> unset returns the same path and changes nothing.
\<close>

theorem download_file_transfer_iff:
  "transfers (snd (FileCache_download_file root http_get dataset res u force s)) =
     transfers s @
       (if force \<or> files s (FileCache_path root dataset res) = None then [u] else []) \<and>
   (\<not> force \<and> files s (FileCache_path root dataset res) \<noteq> None \<longrightarrow>
      FileCache_download_file root http_get dataset res u force s =
        (Inr (FileCache_path root dataset res), s)) \<and>
   (\<forall>path s'. FileCache_download_file root http_get dataset res u force s = (Inr path, s') \<longrightarrow>
      FileCache_download_file root http_get dataset res u False s' = (Inr path, s'))"
proof (intro conjI allI impI)
  show "transfers (snd (FileCache_download_file root http_get dataset res u force s)) =
     transfers s @
       (if force \<or> files s (FileCache_path root dataset res) = None then [u] else [])"
    by (rule download_file_transfers)
next
  assume "\<not> force \<and> files s (FileCache_path root dataset res) \<noteq> None"
  then show "FileCache_download_file root http_get dataset res u force s =
        (Inr (FileCache_path root dataset res), s)"
    by (simp add: download_file_hit)
next
  fix path s'
  assume h: "FileCache_download_file root http_get dataset res u force s = (Inr path, s')"
  show "FileCache_download_file root http_get dataset res u False s' = (Inr path, s')"
    using download_file_Inr [OF h] by (simp add: download_file_hit)
qed

theorem download_file_transfer_iff_witness:
  "transfers (snd (FileCache_download_file ''cache'' echo_get ''budget'' ''2023.csv''
      ''http://x/2023.csv'' False warm_fs)) = [] \<and>
   transfers (snd (FileCache_download_file ''cache'' echo_get ''budget'' ''2023.csv''
      ''http://x/2023.csv'' True warm_fs)) = [''http://x/2023.csv''] \<and>
   transfers (snd (FileCache_download_file ''cache'' echo_get ''budget'' ''2023.csv''
      ''http://x/2023.csv'' False empty_fs)) = [''http://x/2023.csv''] \<and>
   FileCache_download_file ''cache'' echo_get ''budget'' ''2023.csv''
      ''http://x/2023.csv'' False warm_fs =
     (Inr (FileCache_path ''cache'' ''budget'' ''2023.csv''), warm_fs)"
proof (intro conjI)
  note hit = download_file_transfer_iff [of "''cache''" echo_get "''budget''" "''2023.csv''"
      "''http://x/2023.csv''" False warm_fs]
  note forced = download_file_transfer_iff [of "''cache''" echo_get "''budget''"
      "''2023.csv''" "''http://x/2023.csv''" True warm_fs]
  note miss = download_file_transfer_iff [of "''cache''" echo_get "''budget''" "''2023.csv''"
      "''http://x/2023.csv''" False empty_fs]
  have tw: "transfers warm_fs = []" by (simp add: warm_fs_def)
  have te: "transfers empty_fs = []" by (simp add: empty_fs_def)
  show "transfers (snd (FileCache_download_file ''cache'' echo_get ''budget'' ''2023.csv''
      ''http://x/2023.csv'' False warm_fs)) = []"
    using hit [THEN conjunct1] by (simp only: warm_fs_entry tw) simp
  show "transfers (snd (FileCache_download_file ''cache'' echo_get ''budget'' ''2023.csv''
      ''http://x/2023.csv'' True warm_fs)) = [''http://x/2023.csv'']"
    using forced [THEN conjunct1] by (simp only: tw) simp
  show "transfers (snd (FileCache_download_file ''cache'' echo_get ''budget'' ''2023.csv''
      ''http://x/2023.csv'' False empty_fs)) = [''http://x/2023.csv'']"
    using miss [THEN conjunct1] by (simp only: empty_fs_entry te) simp
  show "FileCache_download_file ''cache'' echo_get ''budget'' ''2023.csv''
      ''http://x/2023.csv'' False warm_fs =
     (Inr (FileCache_path ''cache'' ''budget'' ''2023.csv''), warm_fs)"
    using hit [THEN conjunct2, THEN conjunct1] by (simp add: warm_fs_entry)
qed

lemma download_each_names:
  "download_each root http_get dataset resources force s = (Inr names, s') \<Longrightarrow>
   names = map rname (filter (\<lambda>r. url r \<noteq> None) resources)"
proof (induction resources arbitrary: s names)
  case Nil
  then show ?case by simp
next
  case (Cons r rs)
  show ?case
  proof (cases "url r")
    case None
    with Cons show ?thesis by simp
  next
    case (Some u)
    with Cons.prems obtain path s1 rest where
      "download_each root http_get dataset rs force s1 = (Inr rest, s')"
      "names = rname r # rest"
      by (auto split: prod.splits sum.splits)
    with Cons.IH Some show ?thesis by simp
  qed
qed

lemma download_each_succeeds:
  "\<forall>r\<in>set resources. \<forall>u. url r = Some u \<longrightarrow> (\<exists>content. http_get u = Inr content) \<Longrightarrow>
   \<exists>s'. download_each root http_get dataset resources force s =
     (Inr (map rname (filter (\<lambda>r. url r \<noteq> None) resources)), s')"
proof (induction resources arbitrary: s)
  case Nil
  then show ?case by simp
next
  case (Cons r rs)
  then have IH: "\<And>s. \<exists>s'. download_each root http_get dataset rs force s =
     (Inr (map rname (filter (\<lambda>r. url r \<noteq> None) rs)), s')"
    by simp
  show ?case
  proof (cases "url r")
    case None
    with IH [of s] show ?thesis by simp
  next
    case (Some u)
    with Cons.prems obtain content where "http_get u = Inr content" by auto
    then obtain s1 where s1: "FileCache_download_file root http_get dataset (rname r) u force s =
        (Inr (FileCache_path root dataset (rname r)), s1)"
      using download_file_succeeds by blast
    from IH [of s1] obtain s2 where "download_each root http_get dataset rs force s1 =
       (Inr (map rname (filter (\<lambda>r. url r \<noteq> None) rs)), s2)" by blast
    with Some s1 show ?thesis by simp
  qed
qed

lemma download_each_forced_transfers:
  "download_each root http_get dataset resources True s = (Inr names, s') \<Longrightarrow>
   transfers s' = transfers s @ List.map_filter url resources"
proof (induction resources arbitrary: s names)
  case Nil
  then show ?case by (simp add: List.map_filter_simps)
next
  case (Cons r rs)
  show ?case
  proof (cases "url r")
    case None
    with Cons show ?thesis by (simp add: List.map_filter_simps)
  next
    case (Some u)
    with Cons.prems obtain path s1 rest where
      a: "FileCache_download_file root http_get dataset (rname r) u True s = (Inr path, s1)" and
      b: "download_each root http_get dataset rs True s1 = (Inr rest, s')"
      by (auto split: prod.splits sum.splits)
    have "transfers s1 = transfers s @ [u]"
      using download_file_transfers [of root http_get dataset "rname r" u True s] a by simp
    with Cons.IH [OF b] Some show ?thesis by (simp add: List.map_filter_simps)
  qed
qed

lemma download_dataset_delegates:
  "package_show ckan name = Inr pkg \<Longrightarrow> pkg_resources pkg = Some resources \<Longrightarrow>
   download_dataset ckan (FileCache root http_get) name overwrite s =
     download_each root http_get name resources overwrite s"
  by (simp add: download_dataset_def resources_list FileCache_def)

lemma FileCache_path_eq_iff:
  "FileCache_path root dataset a = FileCache_path root dataset b \<longleftrightarrow> a = b"
  by (simp add: FileCache_path_def)

lemma download_file_dom:
  assumes "FileCache_download_file root http_get dataset res u force s = (Inr path, s')"
  shows "dom (files s') = insert (FileCache_path root dataset res) (dom (files s))"
  using assms
  by (auto simp: FileCache_download_file_def Let_def split: if_splits sum.splits)

lemma download_file_miss:
  assumes "FileCache_download_file root http_get dataset res u force s = (Inr path, s')"
    and "files s (FileCache_path root dataset res) = None"
  shows "transfers s' = transfers s @ [u]"
    and "files s' p = (if p = FileCache_path root dataset res then files s' p else files s p)"
  using assms
  by (auto simp: FileCache_download_file_def Let_def split: if_splits sum.splits)

lemma download_each_dom:
  "download_each root http_get dataset resources force s = (Inr names, s') \<Longrightarrow>
   dom (files s') = dom (files s) \<union> FileCache_path root dataset ` set names"
proof (induction resources arbitrary: s names)
  case Nil
  then show ?case by simp
next
  case (Cons r rs)
  show ?case
  proof (cases "url r")
    case None
    with Cons show ?thesis by simp
  next
    case (Some u)
    with Cons.prems obtain path s1 rest where
      a: "FileCache_download_file root http_get dataset (rname r) u force s = (Inr path, s1)" and
      b: "download_each root http_get dataset rs force s1 = (Inr rest, s')" and
      c: "names = rname r # rest"
      by (auto split: prod.splits sum.splits)
    from Cons.IH [OF b] download_file_dom [OF a] c show ?thesis by auto
  qed
qed

lemma download_each_fresh_transfers:
  "download_each root http_get dataset resources force s = (Inr names, s') \<Longrightarrow>
   distinct names \<Longrightarrow> \<forall>n\<in>set names. files s (FileCache_path root dataset n) = None \<Longrightarrow>
   transfers s' = transfers s @ List.map_filter url resources"
proof (induction resources arbitrary: s names)
  case Nil
  then show ?case by (simp add: List.map_filter_simps)
next
  case (Cons r rs)
  show ?case
  proof (cases "url r")
    case None
    with Cons show ?thesis by (simp add: List.map_filter_simps)
  next
    case (Some u)
    with Cons.prems(1) obtain path s1 rest where
      a: "FileCache_download_file root http_get dataset (rname r) u force s = (Inr path, s1)" and
      b: "download_each root http_get dataset rs force s1 = (Inr rest, s')" and
      c: "names = rname r # rest"
      by (auto split: prod.splits sum.splits)
    from c Cons.prems(3) have miss: "files s (FileCache_path root dataset (rname r)) = None"
      by simp
    note m = download_file_miss [OF a miss]
    from c Cons.prems(2) have d: "distinct rest" and notin: "rname r \<notin> set rest"
      by simp_all
    have fresh: "\<forall>n\<in>set rest. files s1 (FileCache_path root dataset n) = None"
    proof
      fix n
      assume n: "n \<in> set rest"
      with notin have "FileCache_path root dataset n \<noteq> FileCache_path root dataset (rname r)"
        by (auto simp: FileCache_path_eq_iff)
      with m(2) [of "FileCache_path root dataset n"]
      have "files s1 (FileCache_path root dataset n) = files s (FileCache_path root dataset n)"
        by simp
      with n c Cons.prems(3) show "files s1 (FileCache_path root dataset n) = None"
        by simp
    qed
    from Cons.IH [OF b d fresh] m(1) Some show ?thesis
      by (simp add: List.map_filter_simps)
  qed
qed

text \<open>
  C6. \<open>download_dataset\<close> on a resource list, for either value of \<open>force\<close>. Whenever it
  returns, the list it returns is the names of the resources that have a url, in the
  order of the input, so the resources with a null url raise nothing and are left out;
  the cache entries after the call are those before it and one for each name returned,
  and no other; and when \<open>force\<close> is set, or the names returned are distinct and none
  had an entry before, the urls transferred are those of the resources that have one,
  each once and in order. It does return when the transport serves every url present.
  The Facade's \<open>download_dataset\<close> passes the catalog's resource list to it.
\<close>

theorem download_dataset_skips_missing_urls:
  "(\<forall>names s'. FileCache_download_dataset root http_get dataset (PyList resources) force s =
        (Inr names, s') \<longrightarrow>
      names = map rname (filter (\<lambda>r. url r \<noteq> None) resources) \<and>
      dom (files s') = dom (files s) \<union> FileCache_path root dataset ` set names \<and>
      (force \<or> distinct names \<and> (\<forall>n\<in>set names. files s (FileCache_path root dataset n) = None)
         \<longrightarrow> transfers s' = transfers s @ List.map_filter url resources)) \<and>
   ((\<forall>r\<in>set resources. \<forall>u. url r = Some u \<longrightarrow> (\<exists>content. http_get u = Inr content)) \<longrightarrow>
      (\<exists>s'. FileCache_download_dataset root http_get dataset (PyList resources) force s =
         (Inr (map rname (filter (\<lambda>r. url r \<noteq> None) resources)), s'))) \<and>
   (\<forall>ckan pkg. package_show ckan dataset = Inr pkg \<and> pkg_resources pkg = Some resources \<longrightarrow>
      download_dataset ckan (FileCache root http_get) dataset force s =
        FileCache_download_dataset root http_get dataset (PyList resources) force s)"
proof (intro conjI allI impI)
  fix names s'
  assume h: "FileCache_download_dataset root http_get dataset (PyList resources) force s =
        (Inr names, s')"
  then have e: "download_each root http_get dataset resources force s = (Inr names, s')"
    by simp
  show "names = map rname (filter (\<lambda>r. url r \<noteq> None) resources)"
    using download_each_names [OF e] .
  show "dom (files s') = dom (files s) \<union> FileCache_path root dataset ` set names"
    using download_each_dom [OF e] .
  assume c: "force \<or> distinct names \<and>
      (\<forall>n\<in>set names. files s (FileCache_path root dataset n) = None)"
  show "transfers s' = transfers s @ List.map_filter url resources"
  proof (cases force)
    case True
    with e show ?thesis using download_each_forced_transfers by simp
  next
    case False
    with c e show ?thesis using download_each_fresh_transfers by blast
  qed
next
  assume "\<forall>r\<in>set resources. \<forall>u. url r = Some u \<longrightarrow> (\<exists>content. http_get u = Inr content)"
  then show "\<exists>s'. FileCache_download_dataset root http_get dataset (PyList resources) force s =
         (Inr (map rname (filter (\<lambda>r. url r \<noteq> None) resources)), s')"
    using download_each_succeeds [of resources http_get root dataset force s] by simp
next
  fix ckan :: remote_ckan and pkg :: package
  assume "package_show ckan dataset = Inr pkg \<and> pkg_resources pkg = Some resources"
  then show "download_dataset ckan (FileCache root http_get) dataset force s =
        FileCache_download_dataset root http_get dataset (PyList resources) force s"
    by (simp add: download_dataset_delegates)
qed

theorem download_dataset_skips_missing_urls_witness:
  "(\<exists>s'. FileCache_download_dataset ''cache'' echo_get ''budget'' (PyList budget_resources)
       False empty_fs = (Inr [''2023.csv''], s') \<and>
     download_dataset budget_ckan (FileCache ''cache'' echo_get) ''budget'' False empty_fs =
       (Inr [''2023.csv''], s') \<and>
     dom (files s') = {''cache/budget/2023.csv''} \<and>
     transfers s' = [''http://x/2023.csv''])"
proof -
  note t = download_dataset_skips_missing_urls
    [of "''cache''" echo_get "''budget''" budget_resources False empty_fs]
  have names: "map rname (filter (\<lambda>r. url r \<noteq> None) budget_resources) = [''2023.csv'']"
    by (simp add: budget_resources_def)
  have urls: "List.map_filter url budget_resources = [''http://x/2023.csv'']"
    by (simp add: budget_resources_def List.map_filter_simps)
  have h: "\<forall>r\<in>set budget_resources. \<forall>u. url r = Some u \<longrightarrow>
      (\<exists>content. echo_get u = Inr content)"
    by (simp add: echo_get_def)
  from t h obtain s' where r:
    "FileCache_download_dataset ''cache'' echo_get ''budget'' (PyList budget_resources)
       False empty_fs = (Inr [''2023.csv''], s')"
    unfolding names by blast
  have fresh: "False \<or> distinct [''2023.csv''] \<and>
      (\<forall>n\<in>set [''2023.csv'']. files empty_fs (FileCache_path ''cache'' ''budget'' n) = None)"
    by (simp add: empty_fs_def)
  from t r fresh have
    "dom (files s') = dom (files empty_fs) \<union> FileCache_path ''cache'' ''budget'' ` set [''2023.csv'']"
    and "transfers s' = transfers empty_fs @ List.map_filter url budget_resources"
    by blast+
  then have d: "dom (files s') = {''cache/budget/2023.csv''}"
    and tr: "transfers s' = [''http://x/2023.csv'']"
    by (simp_all add: urls empty_fs_def FileCache_path_def)
  have "package_show budget_ckan ''budget'' = Inr budget_package \<and>
      pkg_resources budget_package = Some budget_resources"
    by (simp add: budget_ckan_def budget_show_def budget_package_def)
  with t have "download_dataset budget_ckan (FileCache ''cache'' echo_get) ''budget''
      False empty_fs =
    FileCache_download_dataset ''cache'' echo_get ''budget'' (PyList budget_resources)
      False empty_fs"
    by blast
  with r d tr show ?thesis by simp
qed

end
